theory Spec2Isabelle
  imports Main
begin

section \<open>Python values and exceptions\<close>

text \<open>
  The values a decoded JSON frame is made of (\<^verbatim>\<open>msg.json()\<close>). A dict is an
  association list read with \<open>map_of\<close>. Floating point numbers are left out of
  the model.
\<close>

datatype pyval =
    VNone
  | VBool bool
  | VInt int
  | VStr string
  | VList "pyval list"
  | VDict "(string \<times> pyval) list"

text \<open>
  Exceptions. The first five are Python's built-in exceptions, the only ones the
  code of \<^verbatim>\<open>lavapy/websocket.py\<close> raises by itself. \<open>JSONDecodeError\<close>,
  \<open>ConnectError\<close>, \<open>TransportError\<close> and \<open>TrackBuildError\<close> stand for what the
  collaborators (\<^verbatim>\<open>msg.json\<close>, \<^verbatim>\<open>ws_connect\<close>, \<^verbatim>\<open>receive\<close>, \<^verbatim>\<open>buildTrack\<close>)
  raise. The last three are error kinds of the specification; no function below
  raises them.
\<close>

datatype error =
    IndexError
  | KeyError
  | ValueError
  | TypeError
  | AttributeError
  | JSONDecodeError
  | ConnectError
  | TransportError
  | TrackBuildError
  | PlayerNotFound
  | UnknownEventType
  | UnknownOperationCode

subsection \<open>The built-ins \<^verbatim>\<open>str\<close> and \<^verbatim>\<open>int\<close>\<close>

definition digit_char :: "nat \<Rightarrow> char" where
  "digit_char d = char_of (48 + d)"

function str_nat :: "nat \<Rightarrow> string" where
  "str_nat n = (if n < 10 then [digit_char n] else str_nat (n div 10) @ [digit_char (n mod 10)])"
  by pat_completeness auto
termination
  by (relation "measure (\<lambda>n. n)") auto

declare str_nat.simps [simp del]

text \<open>\<^verbatim>\<open>str(i)\<close> for an int: decimal digits, with a minus sign when negative.\<close>

definition py_str :: "int \<Rightarrow> string" where
  "py_str i = (if i < 0 then CHR ''-'' # str_nat (nat (- i)) else str_nat (nat i))"

definition is_digit :: "char \<Rightarrow> bool" where
  "is_digit c = (48 \<le> (of_char c :: nat) \<and> (of_char c :: nat) \<le> 57)"

definition digit_val :: "char \<Rightarrow> nat" where
  "digit_val c = (of_char c :: nat) - 48"

text \<open>The whitespace \<^verbatim>\<open>int()\<close> skips around an ASCII string: tab, line feed,
  vertical tab, form feed, carriage return and space.\<close>

definition is_space :: "char \<Rightarrow> bool" where
  "is_space c = ((of_char c :: nat) \<in> {9, 10, 11, 12, 13, 32})"

text \<open>Digits, with single underscores allowed between two digits.\<close>

fun parse_digits :: "string \<Rightarrow> nat \<Rightarrow> nat option" where
  "parse_digits [] acc = Some acc"
| "parse_digits (c # cs) acc =
     (if is_digit c then parse_digits cs (10 * acc + digit_val c)
      else if c = CHR ''_'' \<and> cs \<noteq> [] \<and> is_digit (hd cs) then parse_digits cs acc
      else None)"

definition parse_nat :: "string \<Rightarrow> nat option" where
  "parse_nat s = (case s of [] \<Rightarrow> None | c # _ \<Rightarrow> if is_digit c then parse_digits s 0 else None)"

definition strip :: "string \<Rightarrow> string" where
  "strip s = rev (dropWhile is_space (rev (dropWhile is_space s)))"

text \<open>
  \<^verbatim>\<open>int(v)\<close>: an int is itself, a bool is 0 or 1, a string is stripped of
  surrounding whitespace and read as an optionally signed decimal literal;
  \<^verbatim>\<open>ValueError\<close> for any other string, \<^verbatim>\<open>TypeError\<close> for \<^verbatim>\<open>None\<close>, a list or a
  dict. The model is of ASCII strings: the digits and the whitespace of Unicode
  beyond ASCII, which \<^verbatim>\<open>int()\<close> accepts too, are not read, and neither is the
  limit Python puts on the number of digits.
\<close>

definition py_int :: "pyval \<Rightarrow> error + int" where
  "py_int v =
     (case v of
        VInt i \<Rightarrow> Inr i
      | VBool b \<Rightarrow> Inr (if b then 1 else 0)
      | VStr s \<Rightarrow>
          (case strip s of
             [] \<Rightarrow> Inl ValueError
           | c # cs \<Rightarrow>
               if c = CHR ''-'' then
                 (case parse_nat cs of None \<Rightarrow> Inl ValueError | Some n \<Rightarrow> Inr (- int n))
               else if c = CHR ''+'' then
                 (case parse_nat cs of None \<Rightarrow> Inl ValueError | Some n \<Rightarrow> Inr (int n))
               else
                 (case parse_nat (c # cs) of None \<Rightarrow> Inl ValueError | Some n \<Rightarrow> Inr (int n)))
      | _ \<Rightarrow> Inl TypeError)"

text \<open>\<^verbatim>\<open>data[k]\<close>: \<^verbatim>\<open>KeyError\<close> when a dict lacks the key, \<^verbatim>\<open>TypeError\<close> when
  \<open>data\<close> is not a dict (a string key subscripts nothing else).\<close>

definition subscript :: "pyval \<Rightarrow> string \<Rightarrow> error + pyval" where
  "subscript data k =
     (case data of
        VDict d \<Rightarrow> (case map_of d k of None \<Rightarrow> Inl KeyError | Some v \<Rightarrow> Inr v)
      | _ \<Rightarrow> Inl TypeError)"

text \<open>\<^verbatim>\<open>data.get(k)\<close>: \<^verbatim>\<open>None\<close> when a dict lacks the key, \<^verbatim>\<open>AttributeError\<close>
  when \<open>data\<close> is not a dict.\<close>

definition dict_get :: "pyval \<Rightarrow> string \<Rightarrow> error + pyval" where
  "dict_get data k =
     (case data of
        VDict d \<Rightarrow> (case map_of d k of None \<Rightarrow> Inr VNone | Some v \<Rightarrow> Inr v)
      | _ \<Rightarrow> Inl AttributeError)"

section \<open>Collaborators and the data model\<close>

text \<open>A player is known to this module by \<^verbatim>\<open>player.guild.id\<close> only.\<close>

record Player =
  guild_id :: int

datatype Track = Track string

datatype ClientWebSocketResponse = ClientWebSocketResponse string

text \<open>
  The node, as \<^verbatim>\<open>websocket.py\<close> reads it: \<^verbatim>\<open>host\<close>, \<^verbatim>\<open>port\<close>, \<^verbatim>\<open>password\<close>,
  \<^verbatim>\<open>bot.user.id\<close>, \<^verbatim>\<open>players\<close>, and the two collaborators whose results the code
  awaits: \<^verbatim>\<open>buildTrack\<close> and \<^verbatim>\<open>session.ws_connect\<close> (url, headers, heartbeat).
\<close>

record Node =
  host :: string
  port :: int
  password :: string
  bot_user_id :: int
  players :: "Player list"
  buildTrack :: "pyval \<Rightarrow> error + Track"
  ws_connect :: "string \<Rightarrow> (string \<times> string) list \<Rightarrow> nat \<Rightarrow> error + ClientWebSocketResponse"

datatype coroutine = ConnectCoro | ListenerCoro | ProcessListenerCoro pyval

datatype Task = Task coroutine

record Websocket =
  node :: Node
  "open" :: bool
  connected :: bool
  connection :: "ClientWebSocketResponse option"
  listener_task :: "Task option"

datatype WSMsgType = CONTINUATION | TEXT | BINARY | PING | PONG | CLOSE | CLOSING | CLOSED | ERROR

text \<open>A received message: its type, and what \<^verbatim>\<open>msg.json()\<close> gives for it.\<close>

record WSMessage =
  type :: WSMsgType
  json :: "error + pyval"

subsection \<open>Events\<close>

text \<open>
  The events, as \<^verbatim>\<open>getEventPayload\<close> constructs them: each constructor with the
  arguments the code passes.
\<close>

datatype LavapyEvent =
    WebsocketClosedEvent Player pyval
  | TrackStartEvent Player Track
  | TrackEndEvent Player Track pyval
  | TrackExceptionEvent Player Track pyval
  | TrackStuckEvent Player Track pyval

text \<open>
  Modelled from the spec: the module \<^verbatim>\<open>lavapy/events.py\<close> is missing, and with it
  the values a payload holds. A payload field is the guild identifier, the track,
  or a field of the envelope (\<^verbatim>\<open>None\<close> when the envelope lacks it).
\<close>

datatype arg = AInt int | ATrack Track | AVal pyval

definition field :: "pyval \<Rightarrow> string \<Rightarrow> arg" where
  "field data k = (case dict_get data k of Inr v \<Rightarrow> AVal v | Inl _ \<Rightarrow> AVal VNone)"

text \<open>
  Modelled from the spec: the module \<^verbatim>\<open>lavapy/events.py\<close> is missing, and with it
  the attribute \<^verbatim>\<open>event\<close> of an event. The spec gives the tag as the variant's name
  in lower case (\<^verbatim>\<open>trackstart\<close>, \<^verbatim>\<open>trackend\<close>).
\<close>

fun event :: "LavapyEvent \<Rightarrow> string" where
  "event (WebsocketClosedEvent p d) = ''websocketclosed''"
| "event (TrackStartEvent p t) = ''trackstart''"
| "event (TrackEndEvent p t d) = ''trackend''"
| "event (TrackExceptionEvent p t d) = ''trackexception''"
| "event (TrackStuckEvent p t d) = ''trackstuck''"

text \<open>
  Modelled from the spec: the module \<^verbatim>\<open>lavapy/events.py\<close> is missing, and with it
  the attribute \<^verbatim>\<open>payload\<close> of an event. The spec gives the payload as the
  variant's fields: TrackStart{guildId, track}, TrackEnd{guildId, track, reason},
  TrackException{guildId, track, error}, TrackStuck{guildId, track, thresholdMs},
  WebsocketClosed{guildId, code, reason, byRemote}.
\<close>

fun payload :: "LavapyEvent \<Rightarrow> (string \<times> arg) list" where
  "payload (WebsocketClosedEvent p d) =
     [(''guildId'', AInt (guild_id p)), (''code'', field d ''code''),
      (''reason'', field d ''reason''), (''byRemote'', field d ''byRemote'')]"
| "payload (TrackStartEvent p t) = [(''guildId'', AInt (guild_id p)), (''track'', ATrack t)]"
| "payload (TrackEndEvent p t d) =
     [(''guildId'', AInt (guild_id p)), (''track'', ATrack t), (''reason'', field d ''reason'')]"
| "payload (TrackExceptionEvent p t d) =
     [(''guildId'', AInt (guild_id p)), (''track'', ATrack t), (''error'', field d ''error'')]"
| "payload (TrackStuckEvent p t d) =
     [(''guildId'', AInt (guild_id p)), (''track'', ATrack t),
      (''thresholdMs'', field d ''thresholdMs'')]"

subsection \<open>Backoff\<close>

text \<open>
  Modelled from the spec: the class \<^verbatim>\<open>ExponentialBackoff\<close> of \<^verbatim>\<open>lavapy/backoff.py\<close>
  is missing. Of the spec's BackoffState only the retry count is kept: a new
  object has made no retry, and the \<open>n\<close>-th call of \<^verbatim>\<open>delay()\<close> on an object is
  represented by its number \<open>n\<close> (the spec's \<open>n\<close>-th successive delay); the value
  itself (base, doubling, cap, jitter) is not computed.
\<close>

record ExponentialBackoff =
  retries :: nat

text \<open>Modelled from the spec: \<^verbatim>\<open>ExponentialBackoff()\<close>, missing with its class; a new
  object has made no retry.\<close>

definition new_backoff :: ExponentialBackoff where
  "new_backoff = \<lparr>retries = 0\<rparr>"

text \<open>Modelled from the spec: \<^verbatim>\<open>delay()\<close>, missing with its class; the call counts
  one more retry and returns the delay of that number.\<close>

definition delay :: "ExponentialBackoff \<Rightarrow> nat \<times> ExponentialBackoff" where
  "delay b = (Suc (retries b), b\<lparr>retries := Suc (retries b)\<rparr>)"

subsection \<open>Effects\<close>

text \<open>
  The calls the code makes on its collaborators, in the order it makes them:
  \<^item> \<open>WsConnect url headers heartbeat\<close>: \<^verbatim>\<open>node.session.ws_connect\<close>;
  \<^item> \<open>CreateTask c\<close>: \<^verbatim>\<open>create_task\<close> of the coroutine \<open>c\<close>;
  \<^item> \<open>Close c\<close>, \<open>Receive c\<close>: \<^verbatim>\<open>close()\<close> and \<^verbatim>\<open>receive()\<close> on the connection;
  \<^item> \<open>NewBackoff\<close>: \<^verbatim>\<open>ExponentialBackoff()\<close>; \<open>BackoffDelay n\<close>: the \<open>n\<close>-th
    \<^verbatim>\<open>delay()\<close> of one backoff object; \<open>Sleep n\<close>: \<^verbatim>\<open>asyncio.sleep\<close> of the value
    that call returned;
  \<^item> \<open>UpdateState g data\<close>: \<^verbatim>\<open>updateState(data)\<close> on the player of guild \<open>g\<close>;
  \<^item> \<open>BuildTrack t\<close>: \<^verbatim>\<open>node.buildTrack(t)\<close>;
  \<^item> \<open>Dispatch name kwargs\<close>: \<^verbatim>\<open>node.bot.dispatch(name, **kwargs)\<close>.
  Calls of the logger are not recorded.
\<close>

datatype effect =
    WsConnect string "(string \<times> string) list" nat
  | CreateTask coroutine
  | Close ClientWebSocketResponse
  | Receive ClientWebSocketResponse
  | NewBackoff
  | BackoffDelay nat
  | Sleep nat
  | UpdateState int pyval
  | BuildTrack pyval
  | Dispatch string "(string \<times> arg) list"

section \<open>The class \<^verbatim>\<open>Websocket\<close>\<close>

text \<open>
  Every method returns its result (\<open>Inl\<close> the exception it raises) and the effects
  it had until then.
\<close>

definition init :: "Node \<Rightarrow> Websocket \<times> effect list" where
  "init n =
     (\<lparr>node = n, open = False, connected = False, connection = None, listener_task = None\<rparr>,
      [CreateTask ConnectCoro])"

definition isConnected :: "Websocket \<Rightarrow> bool" where
  "isConnected ws = (connected ws \<and> open ws)"

text \<open>The first player of the guild; indexing the empty list raises.\<close>

definition getPlayer :: "Websocket \<Rightarrow> int \<Rightarrow> error + Player" where
  "getPlayer ws guildID =
     (case filter (\<lambda>player. guild_id player = guildID) (players (node ws)) of
        [] \<Rightarrow> Inl IndexError
      | player # _ \<Rightarrow> Inr player)"

definition headers :: "Websocket \<Rightarrow> (string \<times> string) list" where
  "headers ws =
     [(''Authorization'', password (node ws)),
      (''User-Id'', py_str (bot_user_id (node ws))),
      (''Client-Name'', ''Lavapy'')]"

definition url :: "Websocket \<Rightarrow> string" where
  "url ws = ''ws://'' @ host (node ws) @ '':'' @ py_str (port (node ws))"

definition connect :: "Websocket \<Rightarrow> (error + Websocket) \<times> effect list" where
  "connect ws =
     (case ws_connect (node ws) (url ws) (headers ws) 60 of
        Inl e \<Rightarrow> (Inl e, [WsConnect (url ws) (headers ws) 60])
      | Inr c \<Rightarrow>
          (Inr (ws\<lparr>connection := Some c, listener_task := Some (Task ListenerCoro),
                   connected := True, open := True\<rparr>),
           [WsConnect (url ws) (headers ws) 60, CreateTask ListenerCoro]))"

text \<open>\<^verbatim>\<open>self.connection.close()\<close> on \<^verbatim>\<open>None\<close> raises \<^verbatim>\<open>AttributeError\<close>.\<close>

definition disconnect :: "Websocket \<Rightarrow> (error + Websocket) \<times> effect list" where
  "disconnect ws =
     (case connection ws of
        None \<Rightarrow> (Inl AttributeError, [])
      | Some c \<Rightarrow> (Inr (ws\<lparr>connected := False, open := False\<rparr>), [Close c]))"

definition dispatchEvent ::
  "Websocket \<Rightarrow> string \<Rightarrow> (string \<times> arg) list \<Rightarrow> (error + unit) \<times> effect list" where
  "dispatchEvent ws ev kwargs = (Inr (), [Dispatch ev kwargs])"

text \<open>
  \<^verbatim>\<open>getEventPayload\<close>: \<open>Inr None\<close> is Python's \<^verbatim>\<open>None\<close>, returned when the
  \<^verbatim>\<open>if\<close>/\<^verbatim>\<open>elif\<close> chain falls through.
\<close>

definition getEventPayload ::
  "Websocket \<Rightarrow> pyval \<Rightarrow> pyval \<Rightarrow> (error + LavapyEvent option) \<times> effect list" where
  "getEventPayload ws name data =
     (case subscript data ''guildId'' of
        Inl e \<Rightarrow> (Inl e, [])
      | Inr g \<Rightarrow>
     (case py_int g of
        Inl e \<Rightarrow> (Inl e, [])
      | Inr guildID \<Rightarrow>
     (case getPlayer ws guildID of
        Inl e \<Rightarrow> (Inl e, [])
      | Inr player \<Rightarrow>
          if name = VStr ''WebSocketClosedEvent'' then
            (Inr (Some (WebsocketClosedEvent player data)), [])
          else
            (case subscript data ''track'' of
               Inl e \<Rightarrow> (Inl e, [])
             | Inr t \<Rightarrow>
            (case buildTrack (node ws) t of
               Inl e \<Rightarrow> (Inl e, [BuildTrack t])
             | Inr track \<Rightarrow>
                 (if name = VStr ''TrackStartEvent'' then
                    Inr (Some (TrackStartEvent player track))
                  else if name = VStr ''TrackEndEvent'' then
                    Inr (Some (TrackEndEvent player track data))
                  else if name = VStr ''TrackExceptionEvent'' then
                    Inr (Some (TrackExceptionEvent player track data))
                  else if name = VStr ''TrackStuckEvent'' then
                    Inr (Some (TrackStuckEvent player track data))
                  else Inr None,
                  [BuildTrack t]))))))"

text \<open>
  \<^verbatim>\<open>processListener\<close>. \<^verbatim>\<open>event.event\<close> on \<^verbatim>\<open>None\<close> raises \<^verbatim>\<open>AttributeError\<close>; an
  operation code that is none of the three falls through the chain and the
  method returns.
\<close>

definition processListener :: "Websocket \<Rightarrow> pyval \<Rightarrow> (error + unit) \<times> effect list" where
  "processListener ws data =
     (case dict_get data ''op'' of
        Inl e \<Rightarrow> (Inl e, [])
      | Inr op \<Rightarrow>
          if op = VStr ''playerUpdate'' then
            (case subscript data ''guildId'' of
               Inl e \<Rightarrow> (Inl e, [])
             | Inr g \<Rightarrow>
            (case py_int g of
               Inl e \<Rightarrow> (Inl e, [])
             | Inr guildID \<Rightarrow>
            (case getPlayer ws guildID of
               Inl e \<Rightarrow> (Inl e, [])
             | Inr player \<Rightarrow> (Inr (), [UpdateState (guild_id player) data]))))
          else if op = VStr ''event'' then
            (case subscript data ''type'' of
               Inl e \<Rightarrow> (Inl e, [])
             | Inr name \<Rightarrow>
            (case getEventPayload ws name data of
               (Inl e, effs) \<Rightarrow> (Inl e, effs)
             | (Inr None, effs) \<Rightarrow> (Inl AttributeError, effs)
             | (Inr (Some ev), effs) \<Rightarrow>
                 (case dispatchEvent ws (''lavapy_'' @ event ev) (payload ev) of
                    (r, effs') \<Rightarrow> (r, effs @ effs'))))
          else if op = VStr ''stats'' then (Inr (), [])
          else (Inr (), []))"

text \<open>
  One pass through the body of the loop of \<^verbatim>\<open>listener\<close>, on the connection \<open>c\<close>
  and with \<open>f\<close> what \<^verbatim>\<open>receive()\<close> delivers (\<open>Inl\<close> when \<^verbatim>\<open>receive()\<close> itself
  raises). The backoff object is created in the body, before the receive. The
  task running \<^verbatim>\<open>processListener\<close> is awaited at once, so what it raises is
  raised in the loop.
\<close>

definition iteration ::
  "Websocket \<Rightarrow> ClientWebSocketResponse \<Rightarrow> error + WSMessage \<Rightarrow> (error + unit) \<times> effect list"
  where
  "iteration ws c f =
     (let backoff = new_backoff in
      case f of
        Inl e \<Rightarrow> (Inl e, [NewBackoff, Receive c])
      | Inr msg \<Rightarrow>
          if type msg = TEXT then
            (case json msg of
               Inl e \<Rightarrow> (Inl e, [NewBackoff, Receive c])
             | Inr data \<Rightarrow>
                 (case processListener ws data of
                    (r, effs) \<Rightarrow>
                      (r, [NewBackoff, Receive c, CreateTask (ProcessListenerCoro data)] @ effs)))
          else if type msg = CLOSED then
            (case delay backoff of
               (n, backoff') \<Rightarrow> (Inr (), [NewBackoff, Receive c, BackoffDelay n, Sleep n]))
          else (Inr (), [NewBackoff, Receive c]))"

text \<open>
  \<^verbatim>\<open>listener\<close>, run on the frames \<^verbatim>\<open>receive()\<close> delivers. The loop is
  \<^verbatim>\<open>while True\<close>: it ends with an exception (\<open>Raised\<close>) or, the frames used up,
  waits in \<^verbatim>\<open>receive()\<close> (\<open>Awaiting\<close>). It never returns. Without a connection,
  \<^verbatim>\<open>self.connection.receive\<close> raises \<^verbatim>\<open>AttributeError\<close>.
\<close>

datatype outcome = Awaiting | Raised error

fun listener :: "Websocket \<Rightarrow> (error + WSMessage) list \<Rightarrow> outcome \<times> effect list" where
  "listener ws [] =
     (case connection ws of
        None \<Rightarrow> (Raised AttributeError, [NewBackoff])
      | Some c \<Rightarrow> (Awaiting, [NewBackoff, Receive c]))"
| "listener ws (f # fs) =
     (case connection ws of
        None \<Rightarrow> (Raised AttributeError, [NewBackoff])
      | Some c \<Rightarrow>
          (case iteration ws c f of
             (Inl e, effs) \<Rightarrow> (Raised e, effs)
           | (Inr _, effs) \<Rightarrow>
               (case listener ws fs of (out, rest) \<Rightarrow> (out, effs @ rest))))"

section \<open>Reading an effect trace\<close>

fun is_dispatch :: "effect \<Rightarrow> bool" where
  "is_dispatch (Dispatch _ _) = True"
| "is_dispatch _ = False"

fun is_update :: "effect \<Rightarrow> bool" where
  "is_update (UpdateState _ _) = True"
| "is_update _ = False"

fun is_delay :: "effect \<Rightarrow> bool" where
  "is_delay (BackoffDelay _) = True"
| "is_delay _ = False"

text \<open>A new handshake: \<^verbatim>\<open>ws_connect\<close> called, or a task running \<^verbatim>\<open>connect()\<close> created.\<close>

fun is_reconnect :: "effect \<Rightarrow> bool" where
  "is_reconnect (WsConnect _ _ _) = True"
| "is_reconnect (CreateTask ConnectCoro) = True"
| "is_reconnect _ = False"

section \<open>A concrete node\<close>

text \<open>
  One node with a single player, of guild 123; its track builder accepts every
  string, and its handshake succeeds.
\<close>

definition example_node :: Node where
  "example_node =
     \<lparr>host = ''localhost'', port = 2333, password = ''youshallnotpass'', bot_user_id = 42,
      players = [\<lparr>guild_id = 123\<rparr>],
      buildTrack = (\<lambda>t. case t of VStr s \<Rightarrow> Inr (Track s) | _ \<Rightarrow> Inl TrackBuildError),
      ws_connect = (\<lambda>u h b. Inr (ClientWebSocketResponse u))\<rparr>"

definition example_conn :: ClientWebSocketResponse where
  "example_conn = ClientWebSocketResponse ''ws://localhost:2333''"

text \<open>The instance as \<^verbatim>\<open>__init__\<close> leaves it, after \<^verbatim>\<open>connect()\<close>, and after
  \<^verbatim>\<open>disconnect()\<close> then.\<close>

definition fresh_ws :: Websocket where
  "fresh_ws = fst (init example_node)"

definition open_ws :: Websocket where
  "open_ws =
     \<lparr>node = example_node, open = True, connected = True, connection = Some example_conn,
      listener_task = Some (Task ListenerCoro)\<rparr>"

definition closed_ws :: Websocket where
  "closed_ws = open_ws\<lparr>connected := False, open := False\<rparr>"

definition closed_frame :: "error + WSMessage" where
  "closed_frame = Inr \<lparr>type = CLOSED, json = Inl JSONDecodeError\<rparr>"

definition text_frame :: "pyval \<Rightarrow> error + WSMessage" where
  "text_frame data = Inr \<lparr>type = TEXT, json = Inr data\<rparr>"

definition player_update :: "string \<Rightarrow> pyval" where
  "player_update g = VDict [(''op'', VStr ''playerUpdate''), (''guildId'', VStr g)]"

definition track_event :: "string \<Rightarrow> string \<Rightarrow> pyval" where
  "track_event name g =
     VDict [(''op'', VStr ''event''), (''type'', VStr name), (''guildId'', VStr g),
            (''track'', VStr ''QAAAjQ''), (''reason'', VStr ''FINISHED'')]"

section \<open>Facts about the model\<close>

subsection \<open>The concrete node, evaluated\<close>

lemma py_int_999: "py_int (VStr ''999'') = Inr 999"
  by code_simp

lemma py_int_123: "py_int (VStr ''123'') = Inr 123"
  by code_simp

lemma py_str_2333: "py_str 2333 = ''2333''"
  by code_simp

lemma py_str_42: "py_str 42 = ''42''"
  by code_simp

lemma node_fresh_ws: "node fresh_ws = example_node"
  by (simp add: fresh_ws_def init_def)

lemma node_open_ws: "node open_ws = example_node"
  by (simp add: open_ws_def)

lemma connection_open_ws: "connection open_ws = Some example_conn"
  by (simp add: open_ws_def)

lemma update_999:
  "node ws = example_node \<Longrightarrow> processListener ws (player_update ''999'') = (Inl IndexError, [])"
  by (simp add: processListener_def player_update_def dict_get_def subscript_def py_int_999
      getPlayer_def example_node_def)

lemma update_123:
  "node ws = example_node \<Longrightarrow>
   processListener ws (player_update ''123'') = (Inr (), [UpdateState 123 (player_update ''123'')])"
  by (simp add: processListener_def player_update_def dict_get_def subscript_def py_int_123
      getPlayer_def example_node_def)

lemma iteration_update_123:
  "node ws = example_node \<Longrightarrow>
   iteration ws c (text_frame (player_update ''123'')) =
     (Inr (), [NewBackoff, Receive c, CreateTask (ProcessListenerCoro (player_update ''123'')),
               UpdateState 123 (player_update ''123'')])"
  by (simp add: iteration_def text_frame_def update_123)

lemma iteration_update_999:
  "node ws = example_node \<Longrightarrow>
   iteration ws c (text_frame (player_update ''999'')) =
     (Inl IndexError,
      [NewBackoff, Receive c, CreateTask (ProcessListenerCoro (player_update ''999''))])"
  by (simp add: iteration_def text_frame_def update_999)

lemma iteration_closed:
  "iteration ws c closed_frame = (Inr (), [NewBackoff, Receive c, BackoffDelay 1, Sleep 1])"
  by (simp add: iteration_def closed_frame_def delay_def new_backoff_def)

subsection \<open>What the methods read of the instance\<close>

text \<open>Processing a frame reads the node only; the loop reads the node and the
  connection. The flags \<open>open\<close> and \<open>connected\<close> are read by neither.\<close>

lemma processListener_node:
  assumes "node ws' = node ws"
  shows "processListener ws' data = processListener ws data"
  by (simp only: processListener_def getEventPayload_def getPlayer_def dispatchEvent_def assms)

lemma iteration_node:
  assumes "node ws' = node ws"
  shows "iteration ws' c f = iteration ws c f"
  by (simp only: iteration_def processListener_node [OF assms])

lemma listener_node:
  assumes "node ws' = node ws" and "connection ws' = connection ws"
  shows "listener ws' fs = listener ws fs"
proof (induction fs)
  case Nil
  show ?case by (simp add: assms)
next
  case (Cons f fs)
  show ?case
  proof (cases "connection ws")
    case None
    then show ?thesis by (simp add: assms)
  next
    case (Some c)
    then show ?thesis
      by (simp add: assms(2) iteration_node [OF assms(1)] Cons.IH split: prod.splits sum.splits)
  qed
qed

subsection \<open>The loop, frame after frame\<close>

lemma listener_no_connection:
  "connection ws = None \<Longrightarrow> listener ws fs = (Raised AttributeError, [NewBackoff])"
  by (cases fs) simp_all

text \<open>Once the loop has ended with an exception, no later frame changes anything.\<close>

lemma listener_raised_append:
  "fst (listener ws fs) = Raised e \<Longrightarrow> listener ws (fs @ gs) = listener ws fs"
proof (induction fs)
  case Nil
  then have "connection ws = None"
    by (cases "connection ws") simp_all
  then show ?case
    by (simp add: listener_no_connection)
next
  case (Cons f fs)
  show ?case
  proof (cases "connection ws")
    case None
    then show ?thesis by simp
  next
    case (Some c)
    obtain r effs where it: "iteration ws c f = (r, effs)"
      by (cases "iteration ws c f")
    show ?thesis
    proof (cases r)
      case (Inl e')
      with Some it show ?thesis by simp
    next
      case (Inr u)
      with Some it Cons.prems have "fst (listener ws fs) = Raised e"
        by (simp split: prod.splits)
      then have "listener ws (fs @ gs) = listener ws fs"
        by (rule Cons.IH)
      with Some it Inr show ?thesis by simp
    qed
  qed
qed

text \<open>While the loop waits for a frame, it goes on with the frames that follow.\<close>

lemma listener_awaiting_append:
  "fst (listener ws fs) = Awaiting \<Longrightarrow> fst (listener ws (fs @ gs)) = fst (listener ws gs)"
proof (induction fs)
  case Nil
  then show ?case by simp
next
  case (Cons f fs)
  show ?case
  proof (cases "connection ws")
    case None
    with Cons.prems show ?thesis by simp
  next
    case (Some c)
    obtain r effs where it: "iteration ws c f = (r, effs)"
      by (cases "iteration ws c f")
    show ?thesis
    proof (cases r)
      case (Inl e')
      with Some it Cons.prems show ?thesis by simp
    next
      case (Inr u)
      with Some it Cons.prems have "fst (listener ws fs) = Awaiting"
        by (simp split: prod.splits)
      then have "fst (listener ws (fs @ gs)) = fst (listener ws gs)"
        by (rule Cons.IH)
      with Some it Inr show ?thesis by (simp add: case_prod_beta)
    qed
  qed
qed

lemma listener_ends_at_raise:
  assumes "connection ws = Some c"
    and "fst (listener ws pre) = Awaiting"
    and "fst (iteration ws c f) = Inl e"
  shows "fst (listener ws (pre @ f # fs)) = Raised e"
    and "listener ws (pre @ f # fs) = listener ws (pre @ [f])"
proof -
  have one: "fst (listener ws [f]) = Raised e"
    using assms(1,3) by (cases "iteration ws c f") simp
  have r: "fst (listener ws (pre @ [f])) = Raised e"
    using listener_awaiting_append [OF assms(2), of "[f]"] one by simp
  have "listener ws ((pre @ [f]) @ fs) = listener ws (pre @ [f])"
    using r by (rule listener_raised_append)
  then show "listener ws (pre @ f # fs) = listener ws (pre @ [f])"
    by simp
  with r show "fst (listener ws (pre @ f # fs)) = Raised e"
    by simp
qed

lemma iteration_text_failure:
  assumes "type msg = TEXT"
    and "json msg = Inl e
         \<or> (\<exists>data. json msg = Inr data \<and> fst (processListener ws data) = Inl e)"
  shows "fst (iteration ws c (Inr msg)) = Inl e"
  using assms by (auto simp: iteration_def split: prod.splits)

subsection \<open>Events on the concrete node\<close>

lemma track_event_get:
  "dict_get (track_event n g) ''op'' = Inr (VStr ''event'')"
  "subscript (track_event n g) ''type'' = Inr (VStr n)"
  "subscript (track_event n g) ''guildId'' = Inr (VStr g)"
  "subscript (track_event n g) ''track'' = Inr (VStr ''QAAAjQ'')"
  "field (track_event n g) ''reason'' = AVal (VStr ''FINISHED'')"
  by (simp_all add: track_event_def dict_get_def subscript_def field_def)

lemma getPlayer_123: "node ws = example_node \<Longrightarrow> getPlayer ws 123 = Inr \<lparr>guild_id = 123\<rparr>"
  by (simp add: getPlayer_def example_node_def)

lemma getPlayer_999: "node ws = example_node \<Longrightarrow> getPlayer ws 999 = Inl IndexError"
  by (simp add: getPlayer_def example_node_def)

lemma buildTrack_example: "buildTrack example_node (VStr s) = Inr (Track s)"
  by (simp add: example_node_def)

lemma trackend_123:
  "node ws = example_node \<Longrightarrow>
   getEventPayload ws (VStr ''TrackEndEvent'') (track_event ''TrackEndEvent'' ''123'') =
     (Inr (Some (TrackEndEvent \<lparr>guild_id = 123\<rparr> (Track ''QAAAjQ'')
                   (track_event ''TrackEndEvent'' ''123''))),
      [BuildTrack (VStr ''QAAAjQ'')])"
  by (simp add: getEventPayload_def track_event_get py_int_123 getPlayer_123 buildTrack_example)

lemma unknown_event_123:
  "node ws = example_node \<Longrightarrow>
   getEventPayload ws (VStr ''FooEvent'') (track_event ''FooEvent'' ''123'') =
     (Inr None, [BuildTrack (VStr ''QAAAjQ'')])"
  by (simp add: getEventPayload_def track_event_get py_int_123 getPlayer_123 buildTrack_example)

text \<open>Building an event dispatches nothing.\<close>

lemma getEventPayload_no_dispatch:
  "filter is_dispatch (snd (getEventPayload ws name data)) = []"
  by (simp add: getEventPayload_def split: sum.splits)

subsection \<open>Connecting and disconnecting the concrete node\<close>

lemma ws_connect_example: "ws_connect example_node u h b = Inr (ClientWebSocketResponse u)"
  by (simp add: example_node_def)

lemma url_fresh_ws: "url fresh_ws = ''ws://localhost:2333''"
  by (simp add: url_def node_fresh_ws py_str_2333 example_node_def)

lemma headers_fresh_ws:
  "headers fresh_ws =
     [(''Authorization'', ''youshallnotpass''), (''User-Id'', ''42''), (''Client-Name'', ''Lavapy'')]"
  by (simp add: headers_def node_fresh_ws py_str_42 example_node_def)

lemma connect_fresh_ws:
  "connect fresh_ws =
     (Inr open_ws,
      [WsConnect ''ws://localhost:2333''
         [(''Authorization'', ''youshallnotpass''), (''User-Id'', ''42''),
          (''Client-Name'', ''Lavapy'')] 60,
       CreateTask ListenerCoro])"
  by (simp add: connect_def url_fresh_ws headers_fresh_ws node_fresh_ws ws_connect_example)
     (simp add: fresh_ws_def init_def open_ws_def example_conn_def)

lemma disconnect_open_ws: "disconnect open_ws = (Inr closed_ws, [Close example_conn])"
  by (simp add: disconnect_def connection_open_ws closed_ws_def)

lemma connection_closed_ws: "connection closed_ws = Some example_conn"
  by (simp add: closed_ws_def open_ws_def)

subsection \<open>Where a backoff delay is computed\<close>

lemma getEventPayload_no_delay:
  "filter is_delay (snd (getEventPayload ws name data)) = []"
  by (simp add: getEventPayload_def split: sum.splits)

lemma processListener_no_delay:
  "filter is_delay (snd (processListener ws data)) = []"
  by (simp add: processListener_def dispatchEvent_def case_prod_beta getEventPayload_no_delay
      split: sum.splits option.splits)

lemma iteration_delays:
  "filter is_delay (snd (iteration ws c f)) = []
   \<or> filter is_delay (snd (iteration ws c f)) = [BackoffDelay 1]"
  by (simp add: iteration_def delay_def new_backoff_def case_prod_beta processListener_no_delay
      split: sum.splits)

section \<open>The claims\<close>

subsection \<open>C1: a player update for an unknown guild\<close>

text \<open>
  C1, as the code has it: for every playerUpdate envelope whose \<^verbatim>\<open>guildId\<close> is
  present and reads as an integer that is the guild of no registered player,
  processing fails with \<^verbatim>\<open>IndexError\<close>, raised by the lookup \<^verbatim>\<open>[...][0]\<close> on the
  empty list, and has no effect: \<^verbatim>\<open>updateState\<close> is not called on any player.
\<close>

theorem playerUpdate_unknown_guild:
  assumes "dict_get data ''op'' = Inr (VStr ''playerUpdate'')"
    and "subscript data ''guildId'' = Inr g"
    and "py_int g = Inr guildID"
    and "\<forall>p \<in> set (players (node ws)). guild_id p \<noteq> guildID"
  shows "processListener ws data = (Inl IndexError, [])"
proof -
  have "filter (\<lambda>player. guild_id player = guildID) (players (node ws)) = []"
    using assms(4) by (simp add: filter_empty_conv)
  then have "getPlayer ws guildID = Inl IndexError"
    by (simp add: getPlayer_def)
  with assms(1-3) show ?thesis
    by (simp add: processListener_def)
qed

theorem playerUpdate_unknown_guild_witness:
  "processListener fresh_ws (player_update ''999'') = (Inl IndexError, [])
   \<and> filter is_update (snd (processListener fresh_ws (player_update ''999''))) = []"
proof -
  have "processListener fresh_ws (player_update ''999'') = (Inl IndexError, [])"
    using playerUpdate_unknown_guild [of "player_update ''999''" "VStr ''999''" 999 fresh_ws]
    by (simp add: player_update_def dict_get_def subscript_def py_int_999 fresh_ws_def init_def
        example_node_def)
  then show ?thesis by simp
qed

text \<open>The error is not the \<open>PlayerNotFound\<close> of the claim: guild 999 has no player
  on the concrete node.\<close>

theorem playerUpdate_not_PlayerNotFound:
  "fst (processListener fresh_ws (player_update ''999'')) = Inl IndexError
   \<and> fst (processListener fresh_ws (player_update ''999'')) \<noteq> Inl PlayerNotFound"
  by (simp add: update_999 node_fresh_ws)

subsection \<open>C2: a failure while a frame is processed\<close>

text \<open>
  C2, as the code has it: when \<^verbatim>\<open>msg.json()\<close> or \<^verbatim>\<open>processListener\<close> raises for a
  text frame, the exception leaves the awaited task and ends the loop of
  \<^verbatim>\<open>listener\<close> with it; whatever frames follow, none is received or processed.
\<close>

theorem listener_ends_at_failure:
  assumes "connection ws = Some c"
    and "fst (listener ws pre) = Awaiting"
    and "type msg = TEXT"
    and "json msg = Inl e
         \<or> (\<exists>data. json msg = Inr data \<and> fst (processListener ws data) = Inl e)"
  shows "fst (listener ws (pre @ Inr msg # fs)) = Raised e
    \<and> listener ws (pre @ Inr msg # fs) = listener ws (pre @ [Inr msg])"
proof -
  have it: "fst (iteration ws c (Inr msg)) = Inl e"
    using assms(3,4) by (rule iteration_text_failure)
  have "fst (listener ws (pre @ Inr msg # fs)) = Raised e"
    using assms(1,2) it by (rule listener_ends_at_raise(1))
  moreover have "listener ws (pre @ Inr msg # fs) = listener ws (pre @ [Inr msg])"
    using assms(1,2) it by (rule listener_ends_at_raise(2))
  ultimately show ?thesis
    by (rule conjI)
qed

theorem listener_ends_at_failure_witness:
  "fst (listener open_ws ([text_frame (player_update ''123'')]
          @ text_frame (player_update ''999'') # [text_frame (player_update ''123'')]))
     = Raised IndexError
   \<and> listener open_ws ([text_frame (player_update ''123'')]
          @ text_frame (player_update ''999'') # [text_frame (player_update ''123'')])
     = listener open_ws ([text_frame (player_update ''123'')]
          @ [text_frame (player_update ''999'')])"
proof -
  have 1: "connection open_ws = Some example_conn"
    by (rule connection_open_ws)
  have 2: "fst (listener open_ws [text_frame (player_update ''123'')]) = Awaiting"
    by (simp add: connection_open_ws iteration_update_123 node_open_ws)
  have 3: "type \<lparr>type = TEXT, json = Inr (player_update ''999'')\<rparr> = TEXT"
    by simp
  have 4: "json \<lparr>type = TEXT, json = Inr (player_update ''999'')\<rparr> = Inl IndexError
      \<or> (\<exists>data. json \<lparr>type = TEXT, json = Inr (player_update ''999'')\<rparr> = Inr data
            \<and> fst (processListener open_ws data) = Inl IndexError)"
    by (simp add: update_999 node_open_ws)
  show ?thesis
    unfolding text_frame_def
    by (rule listener_ends_at_failure [OF 1 2 [unfolded text_frame_def] 3 4])
qed

text \<open>A player update for the unknown guild 999 ends the loop: the update for
  guild 123 that follows it is never applied.\<close>

theorem listener_killed_by_unknown_guild:
  "fst (listener open_ws [text_frame (player_update ''999''), text_frame (player_update ''123'')])
     = Raised IndexError
   \<and> filter is_update
       (snd (listener open_ws
          [text_frame (player_update ''999''), text_frame (player_update ''123'')])) = []"
  by (simp add: connection_open_ws iteration_update_999 node_open_ws)

subsection \<open>C3: where the backoff is reset\<close>

text \<open>
  C3, evaluated on two closed frames in a row: the loop creates a new backoff
  object at the start of every pass, with no connection made in between, so that
  both sleeps are for the first delay of a new backoff.
\<close>

theorem backoff_recreated_each_iteration:
  "listener open_ws [closed_frame, closed_frame] =
     (Awaiting,
      [NewBackoff, Receive example_conn, BackoffDelay 1, Sleep 1,
       NewBackoff, Receive example_conn, BackoffDelay 1, Sleep 1,
       NewBackoff, Receive example_conn])"
  by (simp add: connection_open_ws iteration_closed)

subsection \<open>C4: one closed frame\<close>

text \<open>
  C4, evaluated on a single closed frame with nothing after it, on the connected
  instance: the loop computes one backoff delay and sleeps for it, and then it is
  waiting in \<^verbatim>\<open>receive()\<close> on the same connection again. It has called neither
  \<^verbatim>\<open>ws_connect\<close> nor \<^verbatim>\<open>connect()\<close>, and it has not ended.
\<close>

theorem closed_frame_no_reconnect_no_closure:
  "listener open_ws [closed_frame] =
     (Awaiting,
      [NewBackoff, Receive example_conn, BackoffDelay 1, Sleep 1,
       NewBackoff, Receive example_conn])
   \<and> length (filter is_delay (snd (listener open_ws [closed_frame]))) = 1
   \<and> filter is_reconnect (snd (listener open_ws [closed_frame])) = []"
  by (simp add: connection_open_ws iteration_closed)

subsection \<open>C5: an unrecognised event type\<close>

text \<open>
  C5, evaluated on an event envelope of type \<^verbatim>\<open>FooEvent\<close> for the registered guild
  123: \<^verbatim>\<open>getEventPayload\<close> raises nothing; after the track is built it falls
  through its \<^verbatim>\<open>if\<close>/\<^verbatim>\<open>elif\<close> chain and returns \<^verbatim>\<open>None\<close>. The failure comes in
  \<^verbatim>\<open>processListener\<close> only, as the \<^verbatim>\<open>AttributeError\<close> of \<^verbatim>\<open>event.event\<close>.
\<close>

theorem unknown_event_type_returns_None:
  "getEventPayload open_ws (VStr ''FooEvent'') (track_event ''FooEvent'' ''123'')
     = (Inr None, [BuildTrack (VStr ''QAAAjQ'')])
   \<and> processListener open_ws (track_event ''FooEvent'' ''123'')
     = (Inl AttributeError, [BuildTrack (VStr ''QAAAjQ'')])"
  by (simp add: unknown_event_123 node_open_ws processListener_def track_event_get)

subsection \<open>C6: the listener task after \<^verbatim>\<open>disconnect()\<close>\<close>

text \<open>
  C6, as the code has it: a \<^verbatim>\<open>disconnect()\<close> that succeeds calls \<^verbatim>\<open>close()\<close> on the
  connection, clears \<open>connected\<close> and \<open>open\<close>, and does nothing else: the handle of
  the listener task stays in the instance, nothing cancels the task, and the loop
  of \<^verbatim>\<open>listener\<close> behaves on every sequence of frames after the call as it does
  before it.
\<close>

theorem disconnect_leaves_listener:
  assumes "disconnect ws = (Inr ws', effs)"
  shows "(\<exists>c. connection ws = Some c \<and> effs = [Close c])
    \<and> \<not> connected ws' \<and> \<not> open ws'
    \<and> listener_task ws' = listener_task ws
    \<and> listener ws' fs = listener ws fs"
proof -
  from assms obtain c where c: "connection ws = Some c"
    and ws': "ws' = ws\<lparr>connected := False, open := False\<rparr>" and effs: "effs = [Close c]"
    by (auto simp: disconnect_def split: option.splits)
  have "listener ws' fs = listener ws fs"
    by (rule listener_node) (simp_all add: ws')
  with c ws' effs show ?thesis by simp
qed

theorem disconnect_leaves_listener_witness:
  "connection open_ws = Some example_conn
   \<and> \<not> connected closed_ws \<and> \<not> open closed_ws
   \<and> listener_task closed_ws = listener_task open_ws
   \<and> listener closed_ws [closed_frame, closed_frame] = listener open_ws [closed_frame, closed_frame]"
  using disconnect_leaves_listener [OF disconnect_open_ws, of "[closed_frame, closed_frame]"]
  by (simp add: connection_open_ws)

text \<open>After \<^verbatim>\<open>disconnect()\<close> on the connected instance, the task handle is still
  there and the loop, fed the closed frame, is still waiting in \<^verbatim>\<open>receive()\<close>.\<close>

theorem listener_outlives_disconnect:
  "disconnect open_ws = (Inr closed_ws, [Close example_conn])
   \<and> listener_task closed_ws = Some (Task ListenerCoro)
   \<and> fst (listener closed_ws [closed_frame]) = Awaiting"
  by (simp add: disconnect_open_ws connection_closed_ws iteration_closed)
     (simp add: closed_ws_def open_ws_def)

subsection \<open>C7: dispatching a built event\<close>

text \<open>
  C7: for every event envelope whose event is built, \<^verbatim>\<open>processListener\<close> succeeds
  and calls \<^verbatim>\<open>dispatch\<close> exactly once, after the effects of building, with the name
  \<^verbatim>\<open>lavapy_\<close> followed by the event's tag and with the event's payload as keyword
  arguments.
\<close>

theorem event_dispatched_once:
  assumes "dict_get data ''op'' = Inr (VStr ''event'')"
    and "subscript data ''type'' = Inr name"
    and "fst (getEventPayload ws name data) = Inr (Some ev)"
  shows "processListener ws data =
      (Inr (), snd (getEventPayload ws name data)
                 @ [Dispatch (''lavapy_'' @ event ev) (payload ev)])
    \<and> filter is_dispatch (snd (processListener ws data))
        = [Dispatch (''lavapy_'' @ event ev) (payload ev)]"
proof -
  obtain effs where g: "getEventPayload ws name data = (Inr (Some ev), effs)"
    using assms(3) by (cases "getEventPayload ws name data") simp
  have p: "processListener ws data =
      (Inr (), effs @ [Dispatch (''lavapy_'' @ event ev) (payload ev)])"
    using assms(1,2) g by (simp add: processListener_def dispatchEvent_def)
  have "filter is_dispatch effs = []"
    using getEventPayload_no_dispatch [of ws name data] g by simp
  with p g show ?thesis by simp
qed

theorem event_dispatched_once_witness:
  "processListener open_ws (track_event ''TrackEndEvent'' ''123'') =
      (Inr (),
       [BuildTrack (VStr ''QAAAjQ''),
        Dispatch ''lavapy_trackend''
          [(''guildId'', AInt 123), (''track'', ATrack (Track ''QAAAjQ'')),
           (''reason'', AVal (VStr ''FINISHED''))]])
   \<and> filter is_dispatch (snd (processListener open_ws (track_event ''TrackEndEvent'' ''123'')))
      = [Dispatch ''lavapy_trackend''
          [(''guildId'', AInt 123), (''track'', ATrack (Track ''QAAAjQ'')),
           (''reason'', AVal (VStr ''FINISHED''))]]"
  using event_dispatched_once [of "track_event ''TrackEndEvent'' ''123''" "VStr ''TrackEndEvent''"
      open_ws "TrackEndEvent \<lparr>guild_id = 123\<rparr> (Track ''QAAAjQ'')
                   (track_event ''TrackEndEvent'' ''123'')"]
  by (simp add: track_event_get trackend_123 node_open_ws)

subsection \<open>C8: \<^verbatim>\<open>connect()\<close>\<close>

text \<open>
  C8: every call of \<^verbatim>\<open>connect()\<close> makes exactly one handshake, to
  \<^verbatim>\<open>ws://host:port\<close> of the node, with the headers \<^verbatim>\<open>Authorization\<close> (the node's
  password), \<^verbatim>\<open>User-Id\<close> (the bot user's id) and \<^verbatim>\<open>Client-Name\<close> (\<^verbatim>\<open>Lavapy\<close>) and a
  heartbeat of 60; when the handshake succeeds, the call succeeds, a task running
  \<^verbatim>\<open>listener\<close> is created and kept, and the instance is connected and open.
\<close>

theorem connect_handshake_and_listener:
  "filter is_reconnect (snd (connect ws)) =
     [WsConnect (''ws://'' @ host (node ws) @ '':'' @ py_str (port (node ws)))
        [(''Authorization'', password (node ws)),
         (''User-Id'', py_str (bot_user_id (node ws))),
         (''Client-Name'', ''Lavapy'')]
        60]
   \<and> (\<forall>c. ws_connect (node ws) (url ws) (headers ws) 60 = Inr c \<longrightarrow>
         (\<exists>ws'. connect ws = (Inr ws', [WsConnect (url ws) (headers ws) 60, CreateTask ListenerCoro])
            \<and> isConnected ws' \<and> connection ws' = Some c
            \<and> listener_task ws' = Some (Task ListenerCoro) \<and> node ws' = node ws))"
  by (auto simp: connect_def url_def headers_def isConnected_def split: sum.splits)

theorem connect_handshake_and_listener_witness:
  "filter is_reconnect (snd (connect fresh_ws)) =
     [WsConnect ''ws://localhost:2333''
        [(''Authorization'', ''youshallnotpass''), (''User-Id'', ''42''),
         (''Client-Name'', ''Lavapy'')] 60]
   \<and> snd (connect fresh_ws) =
       [WsConnect ''ws://localhost:2333''
          [(''Authorization'', ''youshallnotpass''), (''User-Id'', ''42''),
           (''Client-Name'', ''Lavapy'')] 60,
        CreateTask ListenerCoro]
   \<and> isConnected open_ws \<and> fst (connect fresh_ws) = Inr open_ws
   \<and> listener_task open_ws = Some (Task ListenerCoro)"
proof -
  have c: "ws_connect (node fresh_ws) (url fresh_ws) (headers fresh_ws) 60 = Inr example_conn"
    by (simp add: node_fresh_ws ws_connect_example url_fresh_ws example_conn_def)
  from connect_handshake_and_listener [of fresh_ws] c
  obtain ws' where
    f: "filter is_reconnect (snd (connect fresh_ws)) =
     [WsConnect (''ws://'' @ host (node fresh_ws) @ '':'' @ py_str (port (node fresh_ws)))
        [(''Authorization'', password (node fresh_ws)),
         (''User-Id'', py_str (bot_user_id (node fresh_ws))),
         (''Client-Name'', ''Lavapy'')]
        60]"
    and w: "connect fresh_ws =
        (Inr ws', [WsConnect (url fresh_ws) (headers fresh_ws) 60, CreateTask ListenerCoro])"
      "isConnected ws'" "listener_task ws' = Some (Task ListenerCoro)"
    by blast
  from w(1) have "ws' = open_ws"
    by (simp add: connect_fresh_ws)
  with f w show ?thesis
    by (simp add: url_fresh_ws headers_fresh_ws node_fresh_ws py_str_2333 py_str_42
        example_node_def)
qed

subsection \<open>C9: \<^verbatim>\<open>disconnect()\<close> on a disconnected instance\<close>

text \<open>
  C9, as the code has it: on an instance that is disconnected and holds a
  connection object, \<^verbatim>\<open>disconnect()\<close> succeeds and leaves the instance as it is; it
  calls \<^verbatim>\<open>close()\<close> on the connection once more.
\<close>

theorem disconnect_when_disconnected:
  assumes "connection ws = Some c" and "\<not> connected ws" and "\<not> open ws"
  shows "disconnect ws = (Inr ws, [Close c])"
  using assms by (simp add: disconnect_def)

theorem disconnect_when_disconnected_witness:
  "\<not> isConnected closed_ws \<and> disconnect closed_ws = (Inr closed_ws, [Close example_conn])"
  using disconnect_when_disconnected [of closed_ws example_conn]
  by (simp add: closed_ws_def open_ws_def isConnected_def)

text \<open>On the instance as \<^verbatim>\<open>__init__\<close> leaves it, which is disconnected and has no
  connection, the call raises; on the instance disconnected before, it calls
  \<^verbatim>\<open>close()\<close> again.\<close>

theorem disconnect_before_connect_raises:
  "\<not> isConnected fresh_ws \<and> disconnect fresh_ws = (Inl AttributeError, [])
   \<and> \<not> isConnected closed_ws \<and> snd (disconnect closed_ws) = [Close example_conn]"
  by (simp add: fresh_ws_def init_def isConnected_def disconnect_def closed_ws_def open_ws_def)

subsection \<open>C10: the order of the lookups in \<^verbatim>\<open>getEventPayload\<close>\<close>

text \<open>
  C10: for every event envelope whose \<^verbatim>\<open>guildId\<close> reads as an integer, the player
  is looked up before the name is read: when the lookup fails,
  \<^verbatim>\<open>getEventPayload\<close> fails with its error and without effect whatever the name,
  \<^verbatim>\<open>WebSocketClosedEvent\<close> included; when it succeeds, \<^verbatim>\<open>WebSocketClosedEvent\<close> is
  built without a call of the track builder, and for every other name, also an
  unrecognised one, the track builder is called on the envelope's \<^verbatim>\<open>track\<close>, once,
  and its failure is the result whatever the name.
\<close>

theorem player_resolved_before_name:
  assumes "subscript data ''guildId'' = Inr g" and "py_int g = Inr guildID"
  shows "(getPlayer ws guildID = Inl e \<longrightarrow> getEventPayload ws name data = (Inl e, []))
    \<and> (getPlayer ws guildID = Inr p \<and> name = VStr ''WebSocketClosedEvent'' \<longrightarrow>
         getEventPayload ws name data = (Inr (Some (WebsocketClosedEvent p data)), []))
    \<and> (getPlayer ws guildID = Inr p \<and> name \<noteq> VStr ''WebSocketClosedEvent''
         \<and> subscript data ''track'' = Inr t \<longrightarrow>
         snd (getEventPayload ws name data) = [BuildTrack t]
         \<and> (\<forall>e'. buildTrack (node ws) t = Inl e' \<longrightarrow>
               fst (getEventPayload ws name data) = Inl e'))"
  using assms by (auto simp: getEventPayload_def split: sum.splits)

theorem player_resolved_before_name_witness:
  "getEventPayload open_ws (VStr ''WebSocketClosedEvent'')
      (track_event ''WebSocketClosedEvent'' ''999'') = (Inl IndexError, [])
   \<and> snd (getEventPayload open_ws (VStr ''FooEvent'') (track_event ''FooEvent'' ''123''))
      = [BuildTrack (VStr ''QAAAjQ'')]"
proof -
  have "getEventPayload open_ws (VStr ''WebSocketClosedEvent'')
      (track_event ''WebSocketClosedEvent'' ''999'') = (Inl IndexError, [])"
    using player_resolved_before_name [of "track_event ''WebSocketClosedEvent'' ''999''"
        "VStr ''999''" 999 open_ws IndexError "VStr ''WebSocketClosedEvent''"]
    by (simp add: track_event_get py_int_999 getPlayer_999 node_open_ws)
  moreover have "snd (getEventPayload open_ws (VStr ''FooEvent'') (track_event ''FooEvent'' ''123''))
      = [BuildTrack (VStr ''QAAAjQ'')]"
    using player_resolved_before_name [of "track_event ''FooEvent'' ''123''"
        "VStr ''123''" 123 open_ws _ "VStr ''FooEvent''" "\<lparr>guild_id = 123\<rparr>" "VStr ''QAAAjQ''"]
    by (simp add: track_event_get py_int_123 getPlayer_123 node_open_ws)
  ultimately show ?thesis by simp
qed

section \<open>Further properties\<close>

text \<open>
  X1: whatever frames the loop of \<^verbatim>\<open>listener\<close> receives, every backoff delay it
  computes is the first delay of its backoff object: the delay never grows.
\<close>

theorem every_delay_is_a_first_delay:
  "\<forall>x \<in> set (snd (listener ws fs)). is_delay x \<longrightarrow> x = BackoffDelay 1"
proof (induction fs)
  case Nil
  show ?case by (cases "connection ws") auto
next
  case (Cons f fs)
  show ?case
  proof (cases "connection ws")
    case None
    then show ?thesis by auto
  next
    case (Some c)
    have it: "\<forall>x \<in> set (snd (iteration ws c f)). is_delay x \<longrightarrow> x = BackoffDelay 1"
    proof (intro ballI impI)
      fix x assume "x \<in> set (snd (iteration ws c f))" and "is_delay x"
      then have m: "x \<in> set (filter is_delay (snd (iteration ws c f)))" by simp
      from iteration_delays [of ws c f] show "x = BackoffDelay 1"
      proof
        assume e: "filter is_delay (snd (iteration ws c f)) = []"
        show ?thesis using m unfolding e by simp
      next
        assume e: "filter is_delay (snd (iteration ws c f)) = [BackoffDelay 1]"
        show ?thesis using m unfolding e by simp
      qed
    qed
    obtain r effs where i: "iteration ws c f = (r, effs)"
      by (cases "iteration ws c f")
    obtain out rest where l: "listener ws fs = (out, rest)"
      by (cases "listener ws fs")
    from it i Cons.IH l Some show ?thesis
      by (cases r) auto
  qed
qed

theorem every_delay_is_a_first_delay_witness:
  "filter is_delay (snd (listener open_ws [closed_frame, closed_frame, closed_frame]))
     = [BackoffDelay 1, BackoffDelay 1, BackoffDelay 1]"
proof -
  have "\<forall>x \<in> set (snd (listener open_ws [closed_frame, closed_frame, closed_frame])).
          is_delay x \<longrightarrow> x = BackoffDelay 1"
    by (rule every_delay_is_a_first_delay)
  then show ?thesis
    by (simp add: connection_open_ws iteration_closed)
qed

text \<open>
  X2: an envelope whose operation code is neither \<^verbatim>\<open>playerUpdate\<close> nor \<^verbatim>\<open>event\<close>
  (\<^verbatim>\<open>stats\<close>, an unknown code, no code at all) is processed without an error and
  without an effect, and the pass of the loop that received it succeeds.
\<close>

theorem unknown_operation_ignored:
  assumes "dict_get data ''op'' = Inr op"
    and "op \<noteq> VStr ''playerUpdate''" and "op \<noteq> VStr ''event''"
  shows "processListener ws data = (Inr (), [])
    \<and> iteration ws c (Inr \<lparr>type = TEXT, json = Inr data\<rparr>)
        = (Inr (), [NewBackoff, Receive c, CreateTask (ProcessListenerCoro data)])"
  using assms by (simp add: processListener_def iteration_def)

theorem unknown_operation_ignored_witness:
  "processListener open_ws (VDict [(''op'', VStr ''stats''), (''players'', VInt 3)]) = (Inr (), [])
   \<and> processListener open_ws (VDict [(''op'', VStr ''bogus'')]) = (Inr (), [])
   \<and> processListener open_ws (VDict []) = (Inr (), [])"
proof -
  have "processListener open_ws (VDict [(''op'', VStr ''stats''), (''players'', VInt 3)])
      = (Inr (), [])"
    using unknown_operation_ignored [of "VDict [(''op'', VStr ''stats''), (''players'', VInt 3)]"
        "VStr ''stats''" open_ws]
    by (simp add: dict_get_def)
  moreover have "processListener open_ws (VDict [(''op'', VStr ''bogus'')]) = (Inr (), [])"
    using unknown_operation_ignored [of "VDict [(''op'', VStr ''bogus'')]" "VStr ''bogus''" open_ws]
    by (simp add: dict_get_def)
  moreover have "processListener open_ws (VDict []) = (Inr (), [])"
    using unknown_operation_ignored [of "VDict []" VNone open_ws]
    by (simp add: dict_get_def)
  ultimately show ?thesis by simp
qed

end
